theory Spec2Isabelle
  imports Complex_Main "HOL-Library.Word" "HOL-Library.Sublist"
begin

section \<open>Python values shared by the helpers\<close>

text \<open>
  An exception is a value: its class and the text \<open>str(e)\<close> gives. A call that can raise
  returns \<open>py_error + 'a\<close>, with \<open>Inl\<close> for the exception.
\<close>

datatype exc_class =
  ValueError | TypeError | FileNotFoundError | PermissionError | UnicodeDecodeError
  | LookupError | ParserError

datatype py_error = Raise exc_class string


fun exc_str :: "py_error \<Rightarrow> string" where
  "exc_str (Raise c m) = m"

text \<open>\<open>str(x)\<close> for a value that is a string or \<open>None\<close>, as an f-string prints it.\<close>

fun py_str :: "string option \<Rightarrow> string" where
  "py_str None = ''None''"
| "py_str (Some s) = s"

section \<open>DATA WRANGLING: \<open>read_csv_robust\<close>\<close>

type_synonym byte = "8 word"

text \<open>
  What \<open>read_csv_robust\<close> calls and does not define: the built-in \<open>open\<close> (the
  content of the file, or the exception opening it raises), \<open>chardet.detect\<close> (its
  \<open>'encoding'\<close> entry, which may be \<open>None\<close>) and \<open>pandas.read_csv\<close> with
  \<open>on_bad_lines='skip'\<close>, as a function of the path, the \<open>encoding\<close> and the \<open>sep\<close>
  arguments. They are parameters: every theorem below holds whatever they do.
\<close>

record 'df world =
  open_rb :: "string \<Rightarrow> py_error + byte list"
  chardet_detect :: "byte list \<Rightarrow> string option"
  pd_read_csv :: "string \<Rightarrow> string option \<Rightarrow> string \<Rightarrow> py_error + 'df"

text \<open>\<open>file.read(num_bytes)\<close>: at most \<open>num_bytes\<close> bytes, the whole file when negative.\<close>

definition file_read :: "byte list \<Rightarrow> int \<Rightarrow> byte list" where
  "file_read content num_bytes =
     (if num_bytes < 0 then content else take (nat num_bytes) content)"

text \<open>The inner function \<open>detect_encoding\<close> (lines 60 to 64).\<close>

definition detect_encoding :: "'df world \<Rightarrow> string \<Rightarrow> int \<Rightarrow> py_error + string option" where
  "detect_encoding W file_path num_bytes =
     (case open_rb W file_path of
        Inl e \<Rightarrow> Inl e
      | Inr content \<Rightarrow> Inr (chardet_detect W (file_read content num_bytes)))"

text \<open>
  A call of \<open>read_csv_robust\<close> leaves four things behind: the lines it printed, the
  \<open>encoding\<close> arguments of the \<open>pandas.read_csv\<close> calls it made, in order, what it
  returned or raised, and, when it raised inside its own \<open>except\<close> blocks, the
  exceptions those blocks were handling, innermost first: Python links them to the
  exception raised, as its \<open>__context__\<close>. The \<open>except Exception\<close> clauses catch every
  exception of the classes above.
\<close>

record 'df load_result =
  printed :: "string list"
  attempts :: "string option list"
  outcome :: "py_error + 'df"
  handling :: "py_error list"

definition all_attempts_failed :: py_error where
  "all_attempts_failed =
     Raise ValueError ''All attempts failed. Please check the file for issues beyond encoding.''"

definition read_csv_robust :: "'df world \<Rightarrow> string \<Rightarrow> string \<Rightarrow> int \<Rightarrow> 'df load_result" where
  "read_csv_robust W file_path sep num_bytes =
     (case detect_encoding W file_path num_bytes of
        Inl e \<Rightarrow> \<lparr>printed = [], attempts = [], outcome = Inl e, handling = []\<rparr>
      | Inr encoding_detected \<Rightarrow>
          (case pd_read_csv W file_path encoding_detected sep of
             Inr df \<Rightarrow>
               \<lparr>printed =
                  [''File read successfully with encoding: '' @ py_str encoding_detected],
                attempts = [encoding_detected],
                outcome = Inr df, handling = []\<rparr>
           | Inl e1 \<Rightarrow>
               (case pd_read_csv W file_path (Some ''utf-8'') sep of
                  Inr df \<Rightarrow>
                    \<lparr>printed =
                       [''Failed to read with detected encoding '' @ py_str encoding_detected
                          @ ''. Error: '' @ exc_str e1,
                        ''Attempting to read with UTF-8...'',
                        ''File read successfully with UTF-8.''],
                     attempts = [encoding_detected, Some ''utf-8''],
                     outcome = Inr df, handling = []\<rparr>
                | Inl e2 \<Rightarrow>
                    (case pd_read_csv W file_path (Some ''ISO-8859-1'') sep of
                       Inr df \<Rightarrow>
                         \<lparr>printed =
                            [''Failed to read with detected encoding ''
                               @ py_str encoding_detected @ ''. Error: '' @ exc_str e1,
                             ''Attempting to read with UTF-8...'',
                             ''Failed to read with UTF-8. Error: '' @ exc_str e2,
                             ''Attempting to read with ISO-8859-1...'',
                             ''File read successfully with ISO-8859-1.''],
                          attempts = [encoding_detected, Some ''utf-8'', Some ''ISO-8859-1''],
                          outcome = Inr df, handling = []\<rparr>
                     | Inl e3 \<Rightarrow>
                         \<lparr>printed =
                            [''Failed to read with detected encoding ''
                               @ py_str encoding_detected @ ''. Error: '' @ exc_str e1,
                             ''Attempting to read with UTF-8...'',
                             ''Failed to read with UTF-8. Error: '' @ exc_str e2,
                             ''Attempting to read with ISO-8859-1...'',
                             ''Failed to read with ISO-8859-1. Error: '' @ exc_str e3],
                          attempts = [encoding_detected, Some ''utf-8'', Some ''ISO-8859-1''],
                          outcome = Inl all_attempts_failed, handling = [e3, e2, e1]\<rparr>))))"

text \<open>
  The order the specification gives for the three attempts: the detected encoding, then
  the single-byte encoding (Fallback A), then UTF-8 (Fallback B).
\<close>

definition spec_fallback_order :: "string option \<Rightarrow> string option list" where
  "spec_fallback_order encoding_detected =
     [encoding_detected, Some ''ISO-8859-1'', Some ''utf-8'']"

text \<open>An exception carries a text when the text is a part of its message.\<close>

fun occurs_in :: "string \<Rightarrow> string \<Rightarrow> bool" where
  "occurs_in s [] = (s = [])"
| "occurs_in s (c # cs) = (prefix s (c # cs) \<or> occurs_in s cs)"

definition carries :: "py_error \<Rightarrow> string \<Rightarrow> bool" where
  "carries e s = occurs_in s (exc_str e)"

subsection \<open>Three files\<close>

text \<open>
  A file that does not exist; a file whose first bytes are ASCII and which holds an
  accented letter in UTF-8 further down, so that the detector answers \<open>ascii\<close>, the
  first parse fails on the accent and both fallbacks can decode it (ISO-8859-1 into two
  wrong characters); and a file no encoding can parse.
\<close>

definition cafe_bytes :: "byte list" where
  "cafe_bytes = [0x6E, 0x0A, 0x63, 0x61, 0x66, 0xC3, 0xA9, 0x0A]"

definition world_files :: "(string list) world" where
  "world_files =
     \<lparr>open_rb = (\<lambda>p. if p = ''cafe.csv'' then Inr cafe_bytes
                       else if p = ''broken.csv'' then Inr [0x22, 0x0A]
                       else Inl (Raise FileNotFoundError
                                  (''[Errno 2] No such file or directory: '' @ p))),
      chardet_detect = (\<lambda>raw. if raw = [] then None
                              else if list_all (\<lambda>b. b < 0x80) raw then Some ''ascii''
                              else Some ''utf-8''),
      pd_read_csv = (\<lambda>p enc sep.
        if p = ''cafe.csv'' then
          (if enc = Some ''utf-8'' then Inr [''n'', ''caf'' @ [CHR 0xC3, CHR 0xA9]]
           else if enc = Some ''ISO-8859-1'' then Inr [''n'', ''caf'' @ [CHR 0xC3, CHR 0x83, CHR 0xC2, CHR 0xA9]]
           else Inl (Raise UnicodeDecodeError ''ordinal not in range(128)''))
        else if p = ''broken.csv'' then
          (if enc = Some ''utf-8'' then Inl (Raise ParserError ''EOF inside string (utf-8)'')
           else if enc = Some ''ISO-8859-1'' then Inl (Raise ParserError ''EOF inside string (latin)'')
           else Inl (Raise ParserError ''EOF inside string (ascii)''))
        else Inl (Raise FileNotFoundError
                    (''[Errno 2] No such file or directory: '' @ p)))\<rparr>"

section \<open>STATISTICS: \<open>bootstrap_mean\<close> and \<open>pretty_print_desc_stats\<close>\<close>

text \<open>
  A double is an exact real or \<open>nan\<close>: rounding, overflow and the infinities are left
  out, \<open>nan\<close> is kept because numpy answers with it where one might expect an
  exception. An array element is a number or, for a sample that is not numeric, a
  string. An array is the list of its elements in row-major order, which is what
  \<open>ravel\<close> returns and what \<open>size\<close> counts.
\<close>

datatype float64 = Fin real | NaN

datatype scalar = Num float64 | Str string

datatype py_data =
  Series "scalar list" | PyList "scalar list" | NDArray "scalar list" | OtherObject

subsection \<open>The numpy and scipy functions the helpers call\<close>

text \<open>
  The keyword arguments of a \<open>scipy.stats.bootstrap\<close> call. \<open>random_state\<close> and
  \<open>method_arg\<close> are \<open>None\<close> when the caller does not pass them; scipy's default
  method is \<open>'BCa'\<close>, the bias-corrected and accelerated interval.
\<close>

datatype ci_method = Percentile | BCa

record bootstrap_call =
  sample :: "scalar list"
  statistic :: "scalar list \<Rightarrow> py_error + float64"
  n_resamples :: int
  random_state :: "int option"
  confidence_level :: real
  method_arg :: "ci_method option"

record confidence_interval =
  low :: float64
  high :: float64

text \<open>
  \<open>np.mean\<close>, \<open>np.median\<close>, \<open>np.std\<close> with its \<open>ddof\<close> argument, and
  \<open>scipy.stats.bootstrap\<close>, which may read the state \<open>'g\<close> of numpy's global
  generator at the time of the call (line 18 seeds that generator when the module is
  imported) and returns the \<open>confidence_interval\<close> of its result. They are
  parameters of both helpers.
\<close>

record 'g lib =
  np_mean :: "scalar list \<Rightarrow> py_error + float64"
  np_median :: "scalar list \<Rightarrow> py_error + float64"
  np_std :: "scalar list \<Rightarrow> nat \<Rightarrow> py_error + float64"
  scipy_bootstrap :: "'g \<Rightarrow> bootstrap_call \<Rightarrow> py_error + confidence_interval"

subsection \<open>\<open>bootstrap_mean\<close> (lines 309 to 354)\<close>

text \<open>The \<open>isinstance\<close> chain of lines 325 to 332.\<close>

fun as_ndarray :: "py_data \<Rightarrow> py_error + scalar list" where
  "as_ndarray (Series xs) = Inr xs"
| "as_ndarray (PyList xs) = Inr xs"
| "as_ndarray (NDArray xs) = Inr xs"
| "as_ndarray OtherObject =
     Inl (Raise ValueError ''Input data must be a Pandas Series, list, or numpy array'')"

definition ravel :: "scalar list \<Rightarrow> scalar list" where
  "ravel arr = arr"

text \<open>The dictionary \<open>bootstrap_mean\<close> returns, with its keys as fields.\<close>

record estimate =
  mean :: float64
  lower :: float64
  upper :: float64

definition bootstrap_mean :: "'g lib \<Rightarrow> 'g \<Rightarrow> py_data \<Rightarrow> int \<Rightarrow> real \<Rightarrow> int \<Rightarrow> py_error + estimate" where
  "bootstrap_mean L g data_in n_bootstrap ci seed =
     (case as_ndarray data_in of
        Inl e \<Rightarrow> Inl e
      | Inr arr \<Rightarrow>
          if length arr = 0 then Inl (Raise ValueError ''Input data is empty'')
          else
            (case np_mean L (ravel arr) of
               Inl e \<Rightarrow> Inl e
             | Inr data_mean \<Rightarrow>
                 (case scipy_bootstrap L g
                         \<lparr>sample = ravel arr, statistic = np_mean L,
                          n_resamples = n_bootstrap, random_state = Some seed,
                          confidence_level = ci / 100, method_arg = Some Percentile\<rparr> of
                    Inl e \<Rightarrow> Inl e
                  | Inr result \<Rightarrow>
                      Inr \<lparr>mean = data_mean, lower = low result, upper = high result\<rparr>)))"

subsection \<open>Formatting\<close>

text \<open>\<open>str\<close> of a non-negative integer, and of an integer.\<close>

fun dec_nat :: "nat \<Rightarrow> string" where
  "dec_nat n =
     (if n < 10 then [''0123456789'' ! n]
      else dec_nat (n div 10) @ [''0123456789'' ! (n mod 10)])"

declare dec_nat.simps [simp del]

definition py_str_int :: "int \<Rightarrow> string" where
  "py_str_int i = (if i < 0 then ''-'' @ dec_nat (nat (- i)) else dec_nat (nat i))"

text \<open>\<open>int(x)\<close> of a float: truncation towards zero.\<close>

definition py_int :: "real \<Rightarrow> int" where
  "py_int x = (if 0 \<le> x then \<lfloor>x\<rfloor> else \<lceil>x\<rceil>)"

text \<open>
  The format specification \<open>.{n_digits}f\<close>: \<open>nan\<close> for a NaN, otherwise the value
  rounded to \<open>n_digits\<close> decimals, ties to the even digit.
\<close>

definition round_half_even :: "real \<Rightarrow> int" where
  "round_half_even x =
     (if x - of_int \<lfloor>x\<rfloor> < 1 / 2 then \<lfloor>x\<rfloor>
      else if 1 / 2 < x - of_int \<lfloor>x\<rfloor> then \<lfloor>x\<rfloor> + 1
      else if even \<lfloor>x\<rfloor> then \<lfloor>x\<rfloor> else \<lfloor>x\<rfloor> + 1)"

definition zero_pad :: "nat \<Rightarrow> string \<Rightarrow> string" where
  "zero_pad n s = replicate (n - length s) (CHR ''0'') @ s"

definition format_f :: "nat \<Rightarrow> float64 \<Rightarrow> string" where
  "format_f n_digits x =
     (case x of
        NaN \<Rightarrow> ''nan''
      | Fin r \<Rightarrow>
          (if r < 0 then ''-'' else [])
          @ dec_nat (nat (round_half_even (\<bar>r\<bar> * 10 ^ n_digits)) div 10 ^ n_digits)
          @ (if n_digits = 0 then []
             else ''.'' @ zero_pad n_digits
                    (dec_nat (nat (round_half_even (\<bar>r\<bar> * 10 ^ n_digits)) mod 10 ^ n_digits))))"

subsection \<open>\<open>pretty_print_desc_stats\<close> (lines 265 to 306)\<close>

text \<open>
  \<open>data\<close> is given by the elements of \<open>np.array(data)\<close>. The f-string of line 296
  writes a backslash before the percent sign and before \<open>text\<close>.
\<close>

definition ci_string :: "real \<Rightarrow> nat \<Rightarrow> float64 \<Rightarrow> float64 \<Rightarrow> string" where
  "ci_string ci_level n_digits ci_lower ci_upper =
     '', '' @ py_str_int (py_int (ci_level * 100)) @ [CHR 0x5C] @ ''% '' @ [CHR 0x5C]
       @ ''text{CI} = ['' @ format_f n_digits ci_lower @ '', ''
       @ format_f n_digits ci_upper @ '']''"

definition latex_string :: "nat \<Rightarrow> float64 \<Rightarrow> float64 \<Rightarrow> float64 \<Rightarrow> string \<Rightarrow> string" where
  "latex_string n_digits mean_v median_v sd ci_str =
     ''$M = '' @ format_f n_digits mean_v @ '', Mdn = '' @ format_f n_digits median_v
       @ '', SD = '' @ format_f n_digits sd @ ci_str @ ''$''"

definition pretty_print_desc_stats ::
    "'g lib \<Rightarrow> 'g \<Rightarrow> scalar list \<Rightarrow> int \<Rightarrow> bool \<Rightarrow> real \<Rightarrow> nat \<Rightarrow> int \<Rightarrow> py_error + string" where
  "pretty_print_desc_stats L g data_in n_bootstrap ci ci_level n_digits seed =
     (case np_mean L data_in of
        Inl e \<Rightarrow> Inl e
      | Inr mean_v \<Rightarrow>
     (case np_median L data_in of
        Inl e \<Rightarrow> Inl e
      | Inr median_v \<Rightarrow>
     (case np_std L data_in 1 of
        Inl e \<Rightarrow> Inl e
      | Inr sd \<Rightarrow>
          if ci then
            (case scipy_bootstrap L g
                    \<lparr>sample = data_in, statistic = np_mean L,
                     n_resamples = n_bootstrap, random_state = Some seed,
                     confidence_level = ci_level, method_arg = None\<rparr> of
               Inl e \<Rightarrow> Inl e
             | Inr bootstrap_results \<Rightarrow>
                 Inr (latex_string n_digits mean_v median_v sd
                        (ci_string ci_level n_digits
                           (low bootstrap_results) (high bootstrap_results))))
          else Inr (latex_string n_digits mean_v median_v sd []))))"

subsection \<open>What reproducibility asks of the library\<close>

text \<open>
  A call of \<open>scipy.stats.bootstrap\<close> that is given a seed must not depend on the state
  of the global generator.
\<close>

definition seed_decides :: "'g lib \<Rightarrow> bool" where
  "seed_decides L =
     (\<forall>g g' c. random_state c \<noteq> None \<longrightarrow> scipy_bootstrap L g c = scipy_bootstrap L g' c)"

section \<open>numpy and scipy\<close>

text \<open>
  The repository holds neither library. The definitions of this section give the
  functions of \<open>lib\<close> a meaning, for the claims that are about what they return and for
  evaluating the helpers on concrete samples.
\<close>

subsection \<open>numpy\<close>

text \<open>The float array of a sample, when every element is a number.\<close>

fun numbers :: "scalar list \<Rightarrow> float64 list option" where
  "numbers [] = Some []"
| "numbers (Num x # xs) = map_option ((#) x) (numbers xs)"
| "numbers (Str s # xs) = None"

text \<open>The values of a float array, when none of them is NaN.\<close>

fun reals :: "float64 list \<Rightarrow> real list option" where
  "reals [] = Some []"
| "reals (Fin r # xs) = map_option ((#) r) (reals xs)"
| "reals (NaN # xs) = None"

definition no_loop :: py_error where
  "no_loop = Raise TypeError ''the array is not numeric''"

text \<open>
  Modelled from the spec: \<open>numpy.mean\<close> is not in the repository. The arithmetic mean
  (section 4.4); numpy raises a \<open>TypeError\<close> on an array of strings, propagates NaN, and
  for an empty array divides 0 by 0: it warns and returns \<open>nan\<close>.
\<close>

definition numpy_mean :: "scalar list \<Rightarrow> py_error + float64" where
  "numpy_mean xs =
     (case numbers xs of
        None \<Rightarrow> Inl no_loop
      | Some a \<Rightarrow>
          (case reals a of
             None \<Rightarrow> Inr NaN
           | Some rs \<Rightarrow>
               if rs = [] then Inr NaN else Inr (Fin (sum_list rs / real (length rs)))))"

text \<open>
  Modelled from the spec: \<open>numpy.median\<close> is not in the repository. The middle value of
  the sorted sample, the mean of the two middle values when the size is even; \<open>nan\<close>
  for an empty array or one that holds a NaN.
\<close>

definition numpy_median :: "scalar list \<Rightarrow> py_error + float64" where
  "numpy_median xs =
     (case numbers xs of
        None \<Rightarrow> Inl no_loop
      | Some a \<Rightarrow>
          (case reals a of
             None \<Rightarrow> Inr NaN
           | Some rs \<Rightarrow>
               if rs = [] then Inr NaN
               else if odd (length rs) then Inr (Fin (sort rs ! (length rs div 2)))
               else Inr (Fin ((sort rs ! (length rs div 2 - 1) + sort rs ! (length rs div 2)) / 2))))"

text \<open>
  Modelled from the spec: \<open>numpy.std\<close> is not in the repository. The standard deviation
  with divisor \<open>n - ddof\<close> (section 4.4: Bessel-corrected, divisor \<open>n - 1\<close>, for
  \<open>ddof = 1\<close>). numpy does not raise when the divisor is not positive: for \<open>ddof = 1\<close>,
  the value the helper passes, a sample of fewer than two elements gives 0 divided by 0;
  numpy warns and returns \<open>nan\<close>.
\<close>

definition numpy_std :: "scalar list \<Rightarrow> nat \<Rightarrow> py_error + float64" where
  "numpy_std xs ddof =
     (case numbers xs of
        None \<Rightarrow> Inl no_loop
      | Some a \<Rightarrow>
          (case reals a of
             None \<Rightarrow> Inr NaN
           | Some rs \<Rightarrow>
               if length rs \<le> ddof then Inr NaN
               else Inr (Fin (sqrt
                      (sum_list (map (\<lambda>x. (x - sum_list rs / real (length rs))\<^sup>2) rs)
                         / real (length rs - ddof))))))"

text \<open>
  Modelled from the spec: \<open>numpy.percentile\<close> is not in the repository. The empirical
  percentile of a distribution, with linear interpolation when it falls between two
  order statistics (section 4.3). numpy raises a \<open>ValueError\<close> for a percentage outside
  0 to 100 and returns \<open>nan\<close> when the distribution holds a NaN.
\<close>

definition np_percentile :: "float64 list \<Rightarrow> real \<Rightarrow> py_error + float64" where
  "np_percentile a q =
     (if q < 0 \<or> 100 < q then Inl (Raise ValueError ''Percentiles must be in the range [0, 100]'')
      else
        (case reals a of
           None \<Rightarrow> Inr NaN
         | Some rs \<Rightarrow>
             if rs = [] then Inr NaN
             else Inr (Fin
               (sort rs ! nat \<lfloor>real (length rs - 1) * q / 100\<rfloor>
                + (real (length rs - 1) * q / 100 - of_int \<lfloor>real (length rs - 1) * q / 100\<rfloor>)
                  * (sort rs ! nat \<lceil>real (length rs - 1) * q / 100\<rceil>
                     - sort rs ! nat \<lfloor>real (length rs - 1) * q / 100\<rfloor>)))))"

subsection \<open>scipy.stats.bootstrap\<close>

text \<open>
  What the model of \<open>scipy.stats.bootstrap\<close> leaves open: the pseudo-random generator
  (\<open>seeded s\<close> is the state of a fresh generator made from the seed \<open>s\<close>; \<open>integers\<close>
  gives the index drawn for position \<open>j\<close> of resample \<open>b\<close> among \<open>n\<close> observations) and
  the two percentile levels the BCa method computes, with the normal distribution
  function, from the sample, the nominal level and the bootstrap distribution when its
  acceleration is defined.
\<close>

record 'g internals =
  seeded :: "int \<Rightarrow> 'g"
  integers :: "'g \<Rightarrow> nat \<Rightarrow> nat \<Rightarrow> nat \<Rightarrow> nat"
  bca_levels :: "(scalar list \<Rightarrow> py_error + float64) \<Rightarrow> scalar list \<Rightarrow> real
                   \<Rightarrow> float64 list \<Rightarrow> float64 \<times> float64"

text \<open>
  Modelled from the spec: the generator of a call is "deterministically seeded by
  \<open>seed\<close>" (section 4.3) and "locally scoped" (section 9). scipy makes a fresh
  generator from an integer \<open>random_state\<close>, whose range numpy checks, and uses numpy's
  global generator when \<open>random_state\<close> is \<open>None\<close>.
\<close>

definition check_random_state :: "'g internals \<Rightarrow> 'g \<Rightarrow> int option \<Rightarrow> py_error + 'g" where
  "check_random_state P g rs =
     (case rs of
        None \<Rightarrow> Inr g
      | Some s \<Rightarrow>
          if 0 \<le> s \<and> s < 2 ^ 32 then Inr (seeded P s)
          else Inl (Raise ValueError ''Seed must be between 0 and 2**32 - 1''))"

text \<open>
  Modelled from the spec: "draw \<open>nResamples\<close> independent resamples-with-replacement of
  the same size as \<open>sample\<close> [...]; compute \<open>statistic\<close> on each resample to build an
  empirical distribution of size \<open>nResamples\<close>" (section 4.3).
\<close>

definition resample :: "'g internals \<Rightarrow> 'g \<Rightarrow> 'a list \<Rightarrow> nat \<Rightarrow> 'a list" where
  "resample P rng xs b =
     map (\<lambda>j. xs ! (integers P rng (length xs) b j mod length xs)) [0..<length xs]"

fun collect :: "(py_error + 'a) list \<Rightarrow> py_error + 'a list" where
  "collect [] = Inr []"
| "collect (Inl e # rs) = Inl e"
| "collect (Inr x # rs) = (case collect rs of Inl e \<Rightarrow> Inl e | Inr xs \<Rightarrow> Inr (x # xs))"

definition bootstrap_distribution ::
    "'g internals \<Rightarrow> 'g \<Rightarrow> (scalar list \<Rightarrow> py_error + float64) \<Rightarrow> scalar list \<Rightarrow> nat
       \<Rightarrow> py_error + float64 list" where
  "bootstrap_distribution P rng stat xs n =
     collect (map (\<lambda>b. stat (resample P rng xs b)) [0..<n])"

text \<open>The percentile at a level that may be NaN, as the BCa method takes it.\<close>

definition percentile_at :: "float64 list \<Rightarrow> float64 \<Rightarrow> py_error + float64" where
  "percentile_at theta_hat_b level =
     (case level of NaN \<Rightarrow> Inr NaN | Fin a \<Rightarrow> np_percentile theta_hat_b (a * 100))"

text \<open>
  Modelled from the spec: "the confidence interval bounds are the
  \<open>(1-confidenceLevel)/2\<close> and \<open>1-(1-confidenceLevel)/2\<close> empirical percentiles of that
  distribution (percentile method -- no bias correction)" (section 4.3).
\<close>

definition percentile_interval :: "float64 list \<Rightarrow> real \<Rightarrow> py_error + confidence_interval" where
  "percentile_interval theta_hat_b conf =
     (case np_percentile theta_hat_b ((1 - conf) / 2 * 100) of
        Inl e \<Rightarrow> Inl e
      | Inr ci_l \<Rightarrow>
          (case np_percentile theta_hat_b ((1 - (1 - conf) / 2) * 100) of
             Inl e \<Rightarrow> Inl e
           | Inr ci_u \<Rightarrow> Inr \<lparr>low = ci_l, high = ci_u\<rparr>))"

text \<open>
  The specification does not describe BCa, the method scipy uses when none is asked
  for. It replaces the two nominal levels by levels corrected for bias and for
  acceleration. The acceleration is a quotient whose divisor is a power of the sum of
  the squared deviations of the jackknife statistics (the statistic of the sample with
  one observation left out, for each observation) from their mean. When that sum is 0
  the quotient is 0 divided by 0: the acceleration and both levels are \<open>nan\<close>, and so
  are the bounds. This is the case of a sample whose observations are all equal.
\<close>

definition jackknife ::
    "(scalar list \<Rightarrow> py_error + float64) \<Rightarrow> scalar list \<Rightarrow> py_error + float64 list" where
  "jackknife stat xs = collect (map (\<lambda>i. stat (take i xs @ drop (Suc i) xs)) [0..<length xs])"

definition acceleration_undefined :: "real list \<Rightarrow> bool" where
  "acceleration_undefined theta_i =
     (sum_list (map (\<lambda>t. (sum_list theta_i / real (length theta_i) - t)\<^sup>2) theta_i) = 0)"

definition bca_alphas ::
    "'g internals \<Rightarrow> (scalar list \<Rightarrow> py_error + float64) \<Rightarrow> scalar list \<Rightarrow> real
       \<Rightarrow> float64 list \<Rightarrow> py_error + float64 \<times> float64" where
  "bca_alphas P stat xs alpha theta_hat_b =
     (case jackknife stat xs of
        Inl e \<Rightarrow> Inl e
      | Inr theta_hat_i \<Rightarrow>
          (case reals theta_hat_i of
             None \<Rightarrow> Inr (NaN, NaN)
           | Some ts \<Rightarrow>
               if acceleration_undefined ts then Inr (NaN, NaN)
               else Inr (bca_levels P stat xs alpha theta_hat_b)))"

definition bca_interval ::
    "'g internals \<Rightarrow> (scalar list \<Rightarrow> py_error + float64) \<Rightarrow> scalar list \<Rightarrow> float64 list \<Rightarrow> real
       \<Rightarrow> py_error + confidence_interval" where
  "bca_interval P stat xs theta_hat_b conf =
     (case bca_alphas P stat xs ((1 - conf) / 2) theta_hat_b of
        Inl e \<Rightarrow> Inl e
      | Inr levels \<Rightarrow>
          (case percentile_at theta_hat_b (fst levels) of
             Inl e \<Rightarrow> Inl e
           | Inr ci_l \<Rightarrow>
               (case percentile_at theta_hat_b (snd levels) of
                  Inl e \<Rightarrow> Inl e
                | Inr ci_u \<Rightarrow> Inr \<lparr>low = ci_l, high = ci_u\<rparr>)))"

text \<open>
  Modelled from the spec: \<open>scipy.stats.bootstrap\<close> is not in the repository. The
  algorithm of section 4.3, with scipy's own checks of its arguments (a sample of at
  least two observations, a positive number of resamples) and its choice between the
  percentile method and BCa, the default.
\<close>

definition bootstrap_model ::
    "'g internals \<Rightarrow> 'g \<Rightarrow> bootstrap_call \<Rightarrow> py_error + confidence_interval" where
  "bootstrap_model P g c =
     (if length (sample c) \<le> 1
        then Inl (Raise ValueError
                    ''each sample in data must contain two or more observations along axis.'')
      else if n_resamples c \<le> 0
        then Inl (Raise ValueError ''n_resamples must be a positive integer.'')
      else
        (case check_random_state P g (random_state c) of
           Inl e \<Rightarrow> Inl e
         | Inr rng \<Rightarrow>
             (case bootstrap_distribution P rng (statistic c) (sample c) (nat (n_resamples c)) of
                Inl e \<Rightarrow> Inl e
              | Inr theta_hat_b \<Rightarrow>
                  (case method_arg c of
                     Some Percentile \<Rightarrow> percentile_interval theta_hat_b (confidence_level c)
                   | Some BCa \<Rightarrow>
                       bca_interval P (statistic c) (sample c) theta_hat_b (confidence_level c)
                   | None \<Rightarrow>
                       bca_interval P (statistic c) (sample c) theta_hat_b (confidence_level c)))))"

definition libs :: "'g internals \<Rightarrow> 'g lib" where
  "libs P =
     \<lparr>np_mean = numpy_mean, np_median = numpy_median, np_std = numpy_std,
      scipy_bootstrap = bootstrap_model P\<rparr>"

text \<open>
  A small generator for evaluating the model: its state is a number, and the index for
  position \<open>j\<close> of resample \<open>b\<close> is \<open>g + 7 b + 11 j + 5 b j\<close>, reduced modulo the sample
  size. No sample below needs the corrected BCa levels; they are left at the nominal
  ones.
\<close>

definition small_internals :: "nat internals" where
  "small_internals =
     \<lparr>seeded = (\<lambda>s. nat s),
      integers = (\<lambda>g n b j. g + 7 * b + 11 * j + 5 * b * j),
      bca_levels = (\<lambda>stat xs alpha theta_hat_b. (Fin alpha, Fin (1 - alpha)))\<rparr>"

section \<open>Properties of \<open>read_csv_robust\<close>\<close>

lemma detect_encoding_open_failed:
  "open_rb W file_path = Inl e \<Longrightarrow> detect_encoding W file_path num_bytes = Inl e"
  by (simp add: detect_encoding_def)

text \<open>
  C10. When the file cannot be opened, \<open>read_csv_robust\<close> raises the exception of
  \<open>open\<close> itself, unchanged; it has printed nothing and has not called
  \<open>pandas.read_csv\<close> once, so neither the fallback chain nor its \<open>ValueError\<close> is
  involved.
\<close>

theorem read_csv_robust_open_error:
  "open_rb W file_path = Inl e \<Longrightarrow>
     read_csv_robust W file_path sep num_bytes
       = \<lparr>printed = [], attempts = [], outcome = Inl e, handling = []\<rparr>"
  by (simp add: read_csv_robust_def detect_encoding_open_failed)

theorem read_csv_robust_open_error_witness:
  "open_rb world_files ''missing.csv''
       = Inl (Raise FileNotFoundError ''[Errno 2] No such file or directory: missing.csv'')
   \<and> read_csv_robust world_files ''missing.csv'' '','' 10000
       = \<lparr>printed = [], attempts = [],
          outcome = Inl (Raise FileNotFoundError
                           ''[Errno 2] No such file or directory: missing.csv''),
          handling = []\<rparr>"
proof -
  have h: "open_rb world_files ''missing.csv''
             = Inl (Raise FileNotFoundError ''[Errno 2] No such file or directory: missing.csv'')"
    by (simp add: world_files_def)
  show ?thesis
    using h read_csv_robust_open_error [OF h, of "'',''" 10000] by simp
qed

lemma read_csv_robust_detected:
  "detect_encoding W file_path num_bytes = Inr enc \<Longrightarrow>
     read_csv_robust W file_path sep num_bytes =
       (case pd_read_csv W file_path enc sep of
          Inr df \<Rightarrow>
            \<lparr>printed = [''File read successfully with encoding: '' @ py_str enc],
             attempts = [enc],
             outcome = Inr df, handling = []\<rparr>
        | Inl e1 \<Rightarrow>
            (case pd_read_csv W file_path (Some ''utf-8'') sep of
               Inr df \<Rightarrow>
                 \<lparr>printed =
                    [''Failed to read with detected encoding '' @ py_str enc
                       @ ''. Error: '' @ exc_str e1,
                     ''Attempting to read with UTF-8...'',
                     ''File read successfully with UTF-8.''],
                  attempts = [enc, Some ''utf-8''],
                  outcome = Inr df, handling = []\<rparr>
             | Inl e2 \<Rightarrow>
                 (case pd_read_csv W file_path (Some ''ISO-8859-1'') sep of
                    Inr df \<Rightarrow>
                      \<lparr>printed =
                         [''Failed to read with detected encoding '' @ py_str enc
                            @ ''. Error: '' @ exc_str e1,
                          ''Attempting to read with UTF-8...'',
                          ''Failed to read with UTF-8. Error: '' @ exc_str e2,
                          ''Attempting to read with ISO-8859-1...'',
                          ''File read successfully with ISO-8859-1.''],
                       attempts = [enc, Some ''utf-8'', Some ''ISO-8859-1''],
                       outcome = Inr df, handling = []\<rparr>
                  | Inl e3 \<Rightarrow>
                      \<lparr>printed =
                         [''Failed to read with detected encoding '' @ py_str enc
                            @ ''. Error: '' @ exc_str e1,
                          ''Attempting to read with UTF-8...'',
                          ''Failed to read with UTF-8. Error: '' @ exc_str e2,
                          ''Attempting to read with ISO-8859-1...'',
                          ''Failed to read with ISO-8859-1. Error: '' @ exc_str e3],
                       attempts = [enc, Some ''utf-8'', Some ''ISO-8859-1''],
                       outcome = Inl all_attempts_failed, handling = [e3, e2, e1]\<rparr>)))"
  by (simp add: read_csv_robust_def)

lemma detect_encoding_cafe:
  "detect_encoding world_files ''cafe.csv'' 4 = Inr (Some ''ascii'')"
  by (simp add: detect_encoding_def world_files_def cafe_bytes_def file_read_def)

lemma detect_encoding_broken:
  "detect_encoding world_files ''broken.csv'' 10000 = Inr (Some ''ascii'')"
  by (simp add: detect_encoding_def world_files_def file_read_def)

text \<open>
  C3, as the code has it. Once the file has been opened and its encoding guessed,
  \<open>read_csv_robust\<close> raises if and only if the three \<open>pandas.read_csv\<close> calls all
  raise; otherwise it returns the table of the first call that succeeds. What it raises
  is always the same \<open>ValueError\<close>, whose message is a constant: it holds neither the
  path nor the messages of the three exceptions. Those are printed, one line each, and
  the three exceptions are the ones being handled when the \<open>ValueError\<close> is raised.
\<close>

theorem read_csv_robust_failure:
  "detect_encoding W file_path num_bytes = Inr enc \<Longrightarrow>
     (isl (outcome (read_csv_robust W file_path sep num_bytes)) =
        (isl (pd_read_csv W file_path enc sep)
         \<and> isl (pd_read_csv W file_path (Some ''utf-8'') sep)
         \<and> isl (pd_read_csv W file_path (Some ''ISO-8859-1'') sep)))
     \<and> outcome (read_csv_robust W file_path sep num_bytes) =
         (if \<not> isl (pd_read_csv W file_path enc sep)
            then pd_read_csv W file_path enc sep
          else if \<not> isl (pd_read_csv W file_path (Some ''utf-8'') sep)
            then pd_read_csv W file_path (Some ''utf-8'') sep
          else if \<not> isl (pd_read_csv W file_path (Some ''ISO-8859-1'') sep)
            then pd_read_csv W file_path (Some ''ISO-8859-1'') sep
          else Inl (Raise ValueError
                 ''All attempts failed. Please check the file for issues beyond encoding.''))
     \<and> (\<forall>e1 e2 e3.
            pd_read_csv W file_path enc sep = Inl e1
            \<and> pd_read_csv W file_path (Some ''utf-8'') sep = Inl e2
            \<and> pd_read_csv W file_path (Some ''ISO-8859-1'') sep = Inl e3 \<longrightarrow>
            printed (read_csv_robust W file_path sep num_bytes) =
              [''Failed to read with detected encoding '' @ py_str enc
                 @ ''. Error: '' @ exc_str e1,
               ''Attempting to read with UTF-8...'',
               ''Failed to read with UTF-8. Error: '' @ exc_str e2,
               ''Attempting to read with ISO-8859-1...'',
               ''Failed to read with ISO-8859-1. Error: '' @ exc_str e3]
            \<and> handling (read_csv_robust W file_path sep num_bytes) = [e3, e2, e1])"
  by (auto simp add: read_csv_robust_detected all_attempts_failed_def split: sum.splits)

theorem read_csv_robust_failure_witness:
  "detect_encoding world_files ''broken.csv'' 10000 = Inr (Some ''ascii'')
   \<and> isl (pd_read_csv world_files ''broken.csv'' (Some ''ascii'') '','')
   \<and> isl (pd_read_csv world_files ''broken.csv'' (Some ''utf-8'') '','')
   \<and> isl (pd_read_csv world_files ''broken.csv'' (Some ''ISO-8859-1'') '','')
   \<and> outcome (read_csv_robust world_files ''broken.csv'' '','' 10000)
       = Inl (Raise ValueError
                ''All attempts failed. Please check the file for issues beyond encoding.'')
   \<and> printed (read_csv_robust world_files ''broken.csv'' '','' 10000) =
       [''Failed to read with detected encoding ascii. Error: EOF inside string (ascii)'',
        ''Attempting to read with UTF-8...'',
        ''Failed to read with UTF-8. Error: EOF inside string (utf-8)'',
        ''Attempting to read with ISO-8859-1...'',
        ''Failed to read with ISO-8859-1. Error: EOF inside string (latin)'']
   \<and> handling (read_csv_robust world_files ''broken.csv'' '','' 10000) =
       [Raise ParserError ''EOF inside string (latin)'',
        Raise ParserError ''EOF inside string (utf-8)'',
        Raise ParserError ''EOF inside string (ascii)'']"
proof -
  have a: "pd_read_csv world_files ''broken.csv'' (Some ''ascii'') '',''
             = Inl (Raise ParserError ''EOF inside string (ascii)'')"
    and b: "pd_read_csv world_files ''broken.csv'' (Some ''utf-8'') '',''
             = Inl (Raise ParserError ''EOF inside string (utf-8)'')"
    and c: "pd_read_csv world_files ''broken.csv'' (Some ''ISO-8859-1'') '',''
             = Inl (Raise ParserError ''EOF inside string (latin)'')"
    by (simp_all add: world_files_def)
  show ?thesis
    using read_csv_robust_failure [OF detect_encoding_broken, of "'',''"] a b c
    by (simp add: detect_encoding_broken)
qed

text \<open>
  The claim C3 fails on the file no encoding can parse: the \<open>ValueError\<close> raised holds
  neither the path nor any of the three messages, and the path is in none of the
  exceptions being handled either.
\<close>

theorem read_csv_robust_error_counterexample:
  "outcome (read_csv_robust world_files ''broken.csv'' '','' 10000)
     = Inl (Raise ValueError
              ''All attempts failed. Please check the file for issues beyond encoding.'')
   \<and> \<not> carries (Raise ValueError
              ''All attempts failed. Please check the file for issues beyond encoding.'')
            ''broken.csv''
   \<and> \<not> carries (Raise ValueError
              ''All attempts failed. Please check the file for issues beyond encoding.'')
            ''EOF inside string (ascii)''
   \<and> \<not> carries (Raise ValueError
              ''All attempts failed. Please check the file for issues beyond encoding.'')
            ''EOF inside string (utf-8)''
   \<and> \<not> carries (Raise ValueError
              ''All attempts failed. Please check the file for issues beyond encoding.'')
            ''EOF inside string (latin)''
   \<and> list_all (\<lambda>e. \<not> carries e ''broken.csv'')
        (handling (read_csv_robust world_files ''broken.csv'' '','' 10000))"
  by (simp add: read_csv_robust_detected [OF detect_encoding_broken] carries_def)
    (simp add: world_files_def all_attempts_failed_def)

text \<open>
  C4, as the code has it. The first attempt uses the detected encoding; the second,
  made only when the first raised, uses UTF-8; the third, made only when the second
  raised too, uses ISO-8859-1.
\<close>

theorem read_csv_robust_attempt_order:
  "detect_encoding W file_path num_bytes = Inr enc \<Longrightarrow>
     attempts (read_csv_robust W file_path sep num_bytes) =
       enc # (if isl (pd_read_csv W file_path enc sep)
              then Some ''utf-8'' # (if isl (pd_read_csv W file_path (Some ''utf-8'') sep)
                                     then [Some ''ISO-8859-1''] else [])
              else [])"
  by (simp add: read_csv_robust_detected split: sum.splits)

theorem read_csv_robust_attempt_order_witness:
  "detect_encoding world_files ''broken.csv'' 10000 = Inr (Some ''ascii'')
   \<and> attempts (read_csv_robust world_files ''broken.csv'' '','' 10000)
       = [Some ''ascii'', Some ''utf-8'', Some ''ISO-8859-1'']"
proof -
  have "isl (pd_read_csv world_files ''broken.csv'' (Some ''ascii'') '','')"
    and "isl (pd_read_csv world_files ''broken.csv'' (Some ''utf-8'') '','')"
    by (simp_all add: world_files_def)
  then show ?thesis
    using read_csv_robust_attempt_order [OF detect_encoding_broken, of "'',''"]
    by (simp add: detect_encoding_broken)
qed

text \<open>
  The claim C4 fails on the file with the accent: after the detected encoding, the
  second and last attempt is UTF-8, which is not a prefix of the order the specification
  gives, and the table returned is the one UTF-8 decodes, although ISO-8859-1 would have
  decoded the file too, into another table.
\<close>

theorem read_csv_robust_order_counterexample:
  "attempts (read_csv_robust world_files ''cafe.csv'' '','' 4)
     = [Some ''ascii'', Some ''utf-8'']
   \<and> \<not> prefix (attempts (read_csv_robust world_files ''cafe.csv'' '','' 4))
               (spec_fallback_order (Some ''ascii''))
   \<and> outcome (read_csv_robust world_files ''cafe.csv'' '','' 4)
        = pd_read_csv world_files ''cafe.csv'' (Some ''utf-8'') '',''
   \<and> \<not> isl (pd_read_csv world_files ''cafe.csv'' (Some ''ISO-8859-1'') '','')
   \<and> outcome (read_csv_robust world_files ''cafe.csv'' '','' 4)
        \<noteq> pd_read_csv world_files ''cafe.csv'' (Some ''ISO-8859-1'') '',''"
  by (simp add: read_csv_robust_detected [OF detect_encoding_cafe] spec_fallback_order_def)
    (simp add: world_files_def)

section \<open>Evaluating the model\<close>

lemma libs_simps [simp]:
  "np_mean (libs P) = numpy_mean"
  "np_median (libs P) = numpy_median"
  "np_std (libs P) = numpy_std"
  "scipy_bootstrap (libs P) = bootstrap_model P"
  by (simp_all add: libs_def)

lemma small_internals_simps [simp]:
  "seeded small_internals s = nat s"
  "integers small_internals g n b j = g + 7 * b + 11 * j + 5 * b * j"
  "bca_levels small_internals stat xs alpha thetas = (Fin alpha, Fin (1 - alpha))"
  by (simp_all add: small_internals_def)

lemma mod_two: "n mod Suc (Suc 0) = n mod 2"
  by (simp add: numeral_2_eq_2)



text \<open>numpy on the empty sample, on one observation, and on three small samples.\<close>

lemma numpy_empty:
  "numpy_mean [] = Inr NaN" "numpy_median [] = Inr NaN" "numpy_std [] ddof = Inr NaN"
  by (simp_all add: numpy_mean_def numpy_median_def numpy_std_def)


lemma numpy_55:
  "numpy_mean [Num (Fin 5), Num (Fin 5)] = Inr (Fin 5)"
  "numpy_median [Num (Fin 5), Num (Fin 5)] = Inr (Fin 5)"
  "numpy_std [Num (Fin 5), Num (Fin 5)] (Suc 0) = Inr (Fin 0)"
  by (simp_all add: numpy_mean_def numpy_median_def numpy_std_def)


lemma numpy_mean_124: "numpy_mean [Num (Fin 1), Num (Fin 2), Num (Fin 4)] = Inr (Fin (7 / 3))"
  by (simp add: numpy_mean_def)


text \<open>The strings of line 304.\<close>

lemma latex_nan: "latex_string 2 NaN NaN NaN [] = ''$M = nan, Mdn = nan, SD = nan$''"
  by (simp add: latex_string_def format_f_def)



lemma latex_55:
  "latex_string 2 (Fin 5) (Fin 5) (Fin 0) (ci_string 0.95 2 NaN NaN)
     = ''$M = 5.00, Mdn = 5.00, SD = 0.00, 95'' @ [CHR 0x5C] @ ''% '' @ [CHR 0x5C]
         @ ''text{CI} = [nan, nan]$''"
  by (simp add: latex_string_def ci_string_def format_f_def round_half_even_def zero_pad_def
        py_int_def py_str_int_def dec_nat.simps)

lemma latex_55_percentile:
  "latex_string 2 (Fin 5) (Fin 5) (Fin 0) (ci_string 0.95 2 (Fin 5) (Fin 5))
     = ''$M = 5.00, Mdn = 5.00, SD = 0.00, 95'' @ [CHR 0x5C] @ ''% '' @ [CHR 0x5C]
         @ ''text{CI} = [5.00, 5.00]$''"
  by (simp add: latex_string_def ci_string_def format_f_def round_half_even_def zero_pad_def
        py_int_def py_str_int_def dec_nat.simps)

text \<open>Bootstrap distributions of the small generator, and their percentiles.\<close>

lemma distribution_124_seed_42:
  "bootstrap_distribution small_internals 42 numpy_mean [Num (Fin 1), Num (Fin 2), Num (Fin 4)] 4
     = Inr [Fin (7 / 3), Fin (7 / 3), Fin 4, Fin (7 / 3)]"
  by (simp add: bootstrap_distribution_def resample_def numpy_mean_def upt_conv_Cons)

lemma distribution_124_seed_7:
  "bootstrap_distribution small_internals 7 numpy_mean [Num (Fin 1), Num (Fin 2), Num (Fin 4)] 5
     = Inr [Fin (7 / 3), Fin (7 / 3), Fin 1, Fin (7 / 3), Fin (7 / 3)]"
  by (simp add: bootstrap_distribution_def resample_def numpy_mean_def upt_conv_Cons)

lemma distribution_55:
  "bootstrap_distribution small_internals 42 numpy_mean [Num (Fin 5), Num (Fin 5)] 3
     = Inr [Fin 5, Fin 5, Fin 5]"
  by (simp add: bootstrap_distribution_def resample_def numpy_mean_def upt_conv_Cons mod_two)

lemma percentiles_seed_42:
  "percentile_interval [Fin (7 / 3), Fin (7 / 3), Fin 4, Fin (7 / 3)] (19 / 20)
     = Inr \<lparr>low = Fin (7 / 3), high = Fin (31 / 8)\<rparr>"
  by (simp add: percentile_interval_def np_percentile_def)

lemma percentiles_seed_7:
  "percentile_interval [Fin (7 / 3), Fin (7 / 3), Fin 1, Fin (7 / 3), Fin (7 / 3)] (9 / 10)
     = Inr \<lparr>low = Fin (19 / 15), high = Fin (7 / 3)\<rparr>"
  by (simp add: percentile_interval_def np_percentile_def)

lemma bca_alphas_55:
  "bca_alphas P numpy_mean [Num (Fin 5), Num (Fin 5)] alpha thetas = Inr (NaN, NaN)"
  by (simp add: bca_alphas_def jackknife_def numpy_mean_def acceleration_undefined_def
        upt_conv_Cons)

lemma percentiles_55:
  "percentile_interval [Fin 5, Fin 5, Fin 5] (19 / 20) = Inr \<lparr>low = Fin 5, high = Fin 5\<rparr>"
  by (simp add: percentile_interval_def np_percentile_def)

text \<open>The two helpers on these samples.\<close>

lemma bootstrap_mean_124_seed_42:
  "bootstrap_mean (libs small_internals) g (PyList [Num (Fin 1), Num (Fin 2), Num (Fin 4)]) 4 95 42
     = Inr \<lparr>mean = Fin (7 / 3), lower = Fin (7 / 3), upper = Fin (31 / 8)\<rparr>"
  by (simp add: bootstrap_mean_def ravel_def numpy_mean_124 bootstrap_model_def
        check_random_state_def distribution_124_seed_42 percentiles_seed_42)

lemma bootstrap_mean_124_seed_7:
  "bootstrap_mean (libs small_internals) g (PyList [Num (Fin 1), Num (Fin 2), Num (Fin 4)]) 5 90 7
     = Inr \<lparr>mean = Fin (7 / 3), lower = Fin (19 / 15), upper = Fin (7 / 3)\<rparr>"
  by (simp add: bootstrap_mean_def ravel_def numpy_mean_124 bootstrap_model_def
        check_random_state_def distribution_124_seed_7 percentiles_seed_7)



lemma summary_55:
  "pretty_print_desc_stats (libs small_internals) g [Num (Fin 5), Num (Fin 5)] 3 True 0.95 2 42
     = Inr (latex_string 2 (Fin 5) (Fin 5) (Fin 0) (ci_string 0.95 2 NaN NaN))"
  by (simp add: pretty_print_desc_stats_def numpy_55 bootstrap_model_def check_random_state_def
        distribution_55 bca_interval_def bca_alphas_55 percentile_at_def)

lemma bootstrap_model_seeded:
  "random_state c \<noteq> None \<Longrightarrow> bootstrap_model P g c = bootstrap_model P g' c"
  by (auto simp add: bootstrap_model_def check_random_state_def)

lemma libs_seed_decides: "seed_decides (libs P)"
  by (simp add: seed_decides_def bootstrap_model_seeded)

section \<open>Properties of \<open>bootstrap_mean\<close> and \<open>pretty_print_desc_stats\<close>\<close>

text \<open>
  C1. Two calls of \<open>bootstrap_mean\<close> with the same arguments return the same result,
  whatever the state of numpy's global generator at each call: the function passes its
  \<open>seed\<close> as \<open>random_state\<close> and draws nothing itself. This holds with every library
  whose seeded bootstrap does not read the global generator, and the model of scipy is
  such a library, for every pseudo-random generator.
\<close>

theorem bootstrap_mean_deterministic:
  "(seed_decides L \<longrightarrow>
      bootstrap_mean L g data_in n_bootstrap ci seed
        = bootstrap_mean L g' data_in n_bootstrap ci seed)
   \<and> seed_decides (libs P)
   \<and> bootstrap_mean (libs P) h data_in n_bootstrap ci seed
        = bootstrap_mean (libs P) h' data_in n_bootstrap ci seed"
proof -
  have generic: "bootstrap_mean L g data_in n_bootstrap ci seed
                   = bootstrap_mean L g' data_in n_bootstrap ci seed"
    if "seed_decides L" for L :: "'c lib" and g g'
  proof -
    have eq: "scipy_bootstrap L g
                \<lparr>sample = arr, statistic = np_mean L, n_resamples = n_bootstrap,
                 random_state = Some seed, confidence_level = ci / 100,
                 method_arg = Some Percentile\<rparr>
              = scipy_bootstrap L g'
                \<lparr>sample = arr, statistic = np_mean L, n_resamples = n_bootstrap,
                 random_state = Some seed, confidence_level = ci / 100,
                 method_arg = Some Percentile\<rparr>" for arr
      using that by (simp add: seed_decides_def)
    show ?thesis
      unfolding bootstrap_mean_def eq ..
  qed
  from generic [of L g g'] generic [OF libs_seed_decides, of P h h'] libs_seed_decides [of P]
  show ?thesis by blast
qed

theorem bootstrap_mean_deterministic_witness:
  "seed_decides (libs small_internals)
   \<and> bootstrap_mean (libs small_internals) 0
        (PyList [Num (Fin 1), Num (Fin 2), Num (Fin 4)]) 4 95 42
       = bootstrap_mean (libs small_internals) 1000
           (PyList [Num (Fin 1), Num (Fin 2), Num (Fin 4)]) 4 95 42
   \<and> bootstrap_mean (libs small_internals) 1000
        (PyList [Num (Fin 1), Num (Fin 2), Num (Fin 4)]) 4 95 42
       = Inr \<lparr>mean = Fin (7 / 3), lower = Fin (7 / 3), upper = Fin (31 / 8)\<rparr>"
  using bootstrap_mean_deterministic [where L = "libs small_internals" and P = small_internals
      and g = 0 and g' = 1000 and data_in = "PyList [Num (Fin 1), Num (Fin 2), Num (Fin 4)]"
      and n_bootstrap = 4 and ci = 95 and seed = 42]
  by (simp add: bootstrap_mean_124_seed_42)

text \<open>
  C2, as the code has it. On an empty Series, list or array \<open>bootstrap_mean\<close> raises
  \<open>ValueError('Input data is empty')\<close> whatever the libraries do: it has called none of
  them. \<open>pretty_print_desc_stats\<close> has no such check: on an empty sample it calls
  \<open>np.mean\<close>, \<open>np.median\<close> and \<open>np.std\<close>, and when they return and \<open>ci\<close> is false it
  returns the string made of their results.
\<close>

theorem empty_sample:
  "bootstrap_mean L g (Series []) n_bootstrap ci seed
     = Inl (Raise ValueError ''Input data is empty'')
   \<and> bootstrap_mean L g (PyList []) n_bootstrap ci seed
     = Inl (Raise ValueError ''Input data is empty'')
   \<and> bootstrap_mean L g (NDArray []) n_bootstrap ci seed
     = Inl (Raise ValueError ''Input data is empty'')
   \<and> (np_mean L [] = Inr mean_v \<and> np_median L [] = Inr median_v \<and> np_std L [] 1 = Inr sd \<longrightarrow>
        pretty_print_desc_stats L g' [] n_bootstrap False ci_level n_digits seed
          = Inr (latex_string n_digits mean_v median_v sd []))"
  by (simp add: bootstrap_mean_def pretty_print_desc_stats_def)

theorem empty_sample_witness:
  "np_mean (libs small_internals) [] = Inr NaN
   \<and> np_median (libs small_internals) [] = Inr NaN
   \<and> np_std (libs small_internals) [] 1 = Inr NaN
   \<and> pretty_print_desc_stats (libs small_internals) 0 [] 10000 False 0.95 2 42
       = Inr (latex_string 2 NaN NaN NaN [])
   \<and> bootstrap_mean (libs small_internals) 0 (PyList []) 10000 95 42
       = Inl (Raise ValueError ''Input data is empty'')"
  using empty_sample [where L = "libs small_internals" and g = 0 and g' = 0
      and n_bootstrap = 10000 and ci = 95 and seed = 42 and mean_v = NaN and median_v = NaN
      and sd = NaN and ci_level = "0.95" and n_digits = 2]
  by (simp add: numpy_empty)

text \<open>
  The claim C2 fails for \<open>pretty_print_desc_stats\<close>: numpy returns \<open>nan\<close> three times
  for the empty sample, and the helper returns a string.
\<close>

theorem empty_sample_counterexample:
  "\<not> isl (pretty_print_desc_stats (libs small_internals) 0 [] 10000 False 0.95 2 42)
   \<and> pretty_print_desc_stats (libs small_internals) 0 [] 10000 False 0.95 2 42
       = Inr ''$M = nan, Mdn = nan, SD = nan$''"
  by (simp add: pretty_print_desc_stats_def numpy_empty latex_nan)

text \<open>
  C6. When \<open>bootstrap_mean\<close> returns, its sample is not empty and the \<open>mean\<close> of the
  result is \<open>np.mean\<close> of the sample as given, not of a resample; any other call on the
  same sample that returns, whatever its seed, number of resamples, confidence level or
  the state of the global generator, has the same \<open>mean\<close>.
\<close>

theorem bootstrap_mean_point_estimate:
  "bootstrap_mean L g data_in n_bootstrap ci seed = Inr r \<Longrightarrow>
     (\<exists>arr. as_ndarray data_in = Inr arr \<and> arr \<noteq> [] \<and> np_mean L arr = Inr (mean r))
     \<and> (\<forall>g' n_bootstrap' ci' seed' r'.
           bootstrap_mean L g' data_in n_bootstrap' ci' seed' = Inr r' \<longrightarrow> mean r' = mean r)"
  by (auto simp add: bootstrap_mean_def ravel_def split: sum.splits if_splits)

theorem bootstrap_mean_point_estimate_witness:
  "bootstrap_mean (libs small_internals) 0
      (PyList [Num (Fin 1), Num (Fin 2), Num (Fin 4)]) 4 95 42
     = Inr \<lparr>mean = Fin (7 / 3), lower = Fin (7 / 3), upper = Fin (31 / 8)\<rparr>
   \<and> bootstrap_mean (libs small_internals) 1
        (PyList [Num (Fin 1), Num (Fin 2), Num (Fin 4)]) 5 90 7
     = Inr \<lparr>mean = Fin (7 / 3), lower = Fin (19 / 15), upper = Fin (7 / 3)\<rparr>
   \<and> np_mean (libs small_internals) [Num (Fin 1), Num (Fin 2), Num (Fin 4)]
     = Inr (Fin (7 / 3))"
  using bootstrap_mean_point_estimate [OF bootstrap_mean_124_seed_42 [of 0]]
    bootstrap_mean_124_seed_42 [of 0] bootstrap_mean_124_seed_7 [of 1]
  by (simp add: numpy_mean_124)




text \<open>
  C5, as the code has it. The bounds \<open>bootstrap_mean\<close> returns are the percentiles of
  the bootstrap distribution of the mean at \<open>(1 - ci/100)/2\<close> and
  \<open>1 - (1 - ci/100)/2\<close>, the distribution being drawn from a generator made from
  \<open>seed\<close>: the percentile method. \<open>pretty_print_desc_stats\<close> does not call
  \<open>bootstrap_mean\<close>; it calls \<open>scipy.stats.bootstrap\<close> without a \<open>method\<close>, so the
  bounds it prints are the percentiles of that distribution at the two levels the BCa
  method computes, \<open>nan\<close> when a level is \<open>nan\<close>.
\<close>

theorem interval_method:
  "(bootstrap_mean (libs P) g data_in n_bootstrap ci seed = Inr r
      \<and> as_ndarray data_in = Inr arr \<longrightarrow>
     (\<exists>thetas.
        bootstrap_distribution P (seeded P seed) numpy_mean arr (nat n_bootstrap) = Inr thetas
        \<and> np_percentile thetas ((1 - ci / 100) / 2 * 100) = Inr (lower r)
        \<and> np_percentile thetas ((1 - (1 - ci / 100) / 2) * 100) = Inr (upper r)))
   \<and> (pretty_print_desc_stats (libs P) g xs n_bootstrap True ci_level n_digits seed = Inr s \<longrightarrow>
     (\<exists>thetas levels mean_v median_v sd ci_lower ci_upper.
        bootstrap_distribution P (seeded P seed) numpy_mean xs (nat n_bootstrap) = Inr thetas
        \<and> bca_alphas P numpy_mean xs ((1 - ci_level) / 2) thetas = Inr levels
        \<and> percentile_at thetas (fst levels) = Inr ci_lower
        \<and> percentile_at thetas (snd levels) = Inr ci_upper
        \<and> numpy_mean xs = Inr mean_v \<and> numpy_median xs = Inr median_v
        \<and> numpy_std xs 1 = Inr sd
        \<and> s = latex_string n_digits mean_v median_v sd
                 (ci_string ci_level n_digits ci_lower ci_upper)))"
proof (intro conjI impI)
  assume "bootstrap_mean (libs P) g data_in n_bootstrap ci seed = Inr r
            \<and> as_ndarray data_in = Inr arr"
  then show "\<exists>thetas.
        bootstrap_distribution P (seeded P seed) numpy_mean arr (nat n_bootstrap) = Inr thetas
        \<and> np_percentile thetas ((1 - ci / 100) / 2 * 100) = Inr (lower r)
        \<and> np_percentile thetas ((1 - (1 - ci / 100) / 2) * 100) = Inr (upper r)"
    by (auto simp add: bootstrap_mean_def ravel_def bootstrap_model_def check_random_state_def
          percentile_interval_def split: sum.splits if_splits)
next
  assume "pretty_print_desc_stats (libs P) g xs n_bootstrap True ci_level n_digits seed = Inr s"
  then show "\<exists>thetas levels mean_v median_v sd ci_lower ci_upper.
        bootstrap_distribution P (seeded P seed) numpy_mean xs (nat n_bootstrap) = Inr thetas
        \<and> bca_alphas P numpy_mean xs ((1 - ci_level) / 2) thetas = Inr levels
        \<and> percentile_at thetas (fst levels) = Inr ci_lower
        \<and> percentile_at thetas (snd levels) = Inr ci_upper
        \<and> numpy_mean xs = Inr mean_v \<and> numpy_median xs = Inr median_v
        \<and> numpy_std xs 1 = Inr sd
        \<and> s = latex_string n_digits mean_v median_v sd
                 (ci_string ci_level n_digits ci_lower ci_upper)"
    by (auto simp add: pretty_print_desc_stats_def bootstrap_model_def check_random_state_def
          bca_interval_def split: sum.splits if_splits)
qed

theorem interval_method_witness:
  "bootstrap_mean (libs small_internals) 0
      (PyList [Num (Fin 1), Num (Fin 2), Num (Fin 4)]) 4 95 42
     = Inr \<lparr>mean = Fin (7 / 3), lower = Fin (7 / 3), upper = Fin (31 / 8)\<rparr>
   \<and> bootstrap_distribution small_internals (seeded small_internals 42) numpy_mean
        [Num (Fin 1), Num (Fin 2), Num (Fin 4)] 4
     = Inr [Fin (7 / 3), Fin (7 / 3), Fin 4, Fin (7 / 3)]
   \<and> np_percentile [Fin (7 / 3), Fin (7 / 3), Fin 4, Fin (7 / 3)] 2.5 = Inr (Fin (7 / 3))
   \<and> np_percentile [Fin (7 / 3), Fin (7 / 3), Fin 4, Fin (7 / 3)] 97.5 = Inr (Fin (31 / 8))
   \<and> pretty_print_desc_stats (libs small_internals) 0 [Num (Fin 5), Num (Fin 5)] 3 True 0.95 2 42
       = Inr (latex_string 2 (Fin 5) (Fin 5) (Fin 0) (ci_string 0.95 2 NaN NaN))
   \<and> bca_alphas small_internals numpy_mean [Num (Fin 5), Num (Fin 5)] ((1 - 0.95) / 2)
        [Fin 5, Fin 5, Fin 5] = Inr (NaN, NaN)
   \<and> percentile_at [Fin 5, Fin 5, Fin 5] NaN = Inr NaN"
  using interval_method [where P = small_internals and g = 0
      and data_in = "PyList [Num (Fin 1), Num (Fin 2), Num (Fin 4)]"
      and arr = "[Num (Fin 1), Num (Fin 2), Num (Fin 4)]" and n_bootstrap = 4 and ci = 95
      and seed = 42
      and r = "\<lparr>mean = Fin (7 / 3), lower = Fin (7 / 3), upper = Fin (31 / 8)\<rparr>"]
    interval_method [where P = small_internals and g = 0
      and xs = "[Num (Fin 5), Num (Fin 5)]" and n_bootstrap = 3 and ci_level = "0.95"
      and n_digits = 2 and seed = 42]
    bootstrap_mean_124_seed_42 [of 0] summary_55 [of 0] distribution_124_seed_42
  by (simp add: percentile_at_def np_percentile_def bca_alphas_55)

text \<open>
  The claim C5 fails for \<open>pretty_print_desc_stats\<close> on the sample \<open>[5, 5]\<close>. Every
  resample has mean 5, so the percentile interval is 5 to 5; both jackknife means are 5,
  so the BCa levels are \<open>nan\<close>, and the interval printed is \<open>[nan, nan]\<close>.
\<close>

theorem interval_method_counterexample:
  "pretty_print_desc_stats (libs small_internals) 0 [Num (Fin 5), Num (Fin 5)] 3 True 0.95 2 42
     = Inr (''$M = 5.00, Mdn = 5.00, SD = 0.00, 95'' @ [CHR 0x5C] @ ''% '' @ [CHR 0x5C]
              @ ''text{CI} = [nan, nan]$'')
   \<and> bootstrap_distribution small_internals (seeded small_internals 42) numpy_mean
         [Num (Fin 5), Num (Fin 5)] 3 = Inr [Fin 5, Fin 5, Fin 5]
   \<and> percentile_interval [Fin 5, Fin 5, Fin 5] 0.95 = Inr \<lparr>low = Fin 5, high = Fin 5\<rparr>
   \<and> latex_string 2 (Fin 5) (Fin 5) (Fin 0) (ci_string 0.95 2 (Fin 5) (Fin 5))
       = ''$M = 5.00, Mdn = 5.00, SD = 0.00, 95'' @ [CHR 0x5C] @ ''% '' @ [CHR 0x5C]
           @ ''text{CI} = [5.00, 5.00]$''"
  using summary_55 [of 0] latex_55 latex_55_percentile distribution_55 percentiles_55 by simp




end
